theory Spec2Isabelle
  imports Main
begin

section \<open>Strings\<close>

text \<open>
  Go strings are byte sequences; they are modelled as \<open>string\<close> (a list of 8-bit
  characters). \<open>ToLower\<close> is \<open>strings.ToLower\<close>. A string of ASCII bytes only is
  lowered byte by byte, \<open>A\<close>..\<open>Z\<close> to \<open>a\<close>..\<open>z\<close>. Any other string goes through
  \<open>strings.Map(unicode.ToLower, s)\<close>, which decodes the UTF-8, maps every code point by
  the case tables of Unicode and encodes the result; that function and its tables belong
  to the Go library and are the parameter \<open>mapLower\<close> of the model.
  \<open>Contains\<close> is \<open>strings.Contains\<close>: a scan for the first position at which the
  fragment is a prefix of the rest.
\<close>

definition is_ascii :: "char \<Rightarrow> bool" where
  "is_ascii c = (of_char c < (128::nat))"

definition lower_byte :: "char \<Rightarrow> char" where
  "lower_byte c =
     (if (65::nat) \<le> of_char c \<and> of_char c \<le> (90::nat)
      then char_of (of_char c + (32::nat)) else c)"

definition ToLower :: "(string \<Rightarrow> string) \<Rightarrow> string \<Rightarrow> string" where
  "ToLower mapLower s = (if list_all is_ascii s then map lower_byte s else mapLower s)"

fun HasPrefix :: "string \<Rightarrow> string \<Rightarrow> bool" where
  "HasPrefix s [] = True"
| "HasPrefix [] (p # ps) = False"
| "HasPrefix (c # cs) (p # ps) = (c = p \<and> HasPrefix cs ps)"

fun Contains :: "string \<Rightarrow> string \<Rightarrow> bool" where
  "Contains [] substr = (substr = [])"
| "Contains (c # cs) substr = (HasPrefix (c # cs) substr \<or> Contains cs substr)"

section \<open>Failures\<close>

text \<open>
  Every error value the modelled functions build. \<open>RetryAfterError\<close> is the
  \<open>retryAfterError\<close> struct of the transport (its field is a \<open>time.Duration\<close>, in
  nanoseconds); \<open>NetworkError\<close> and \<open>AuthError\<close> are what
  \<open>clerrors.WrapNetworkError\<close> and \<open>clerrors.WrapAuthError\<close> return, kept as
  constructors carrying the message and the wrapped cause; the others are the
  \<open>fmt.Errorf\<close> values, one constructor per format string.
\<close>

datatype error =
    MarshalError string
  | CreateRequestError string
  | ContextError string
  | RetryAfterError int
  | NetworkError string string
  | APIError int string
  | AuthError string error
  | MaxRetriesExceeded "error option"
  | JSONSyntaxError
  | JSONTypeError
  | ParseError string error
  | ProjectNotFound string
  | SectionNotFound string

section \<open>Resources and name resolution\<close>

record Project =
  ID :: string
  Name :: string
  Color :: string
  ParentID :: string
  Order :: int
  CommentCount :: int
  IsShared :: bool
  IsFavorite :: bool
  IsInboxProject :: bool
  IsTeamInbox :: bool
  ViewStyle :: string
  URL :: string

record Section =
  ID :: string
  ProjectID :: string
  Order :: int
  Name :: string

text \<open>
  The loop of \<open>FindProject\<close>: the first project in listing order whose lowercased
  name contains the lowercased fragment is returned; falling out of the loop is the
  "project not found" error, which carries the fragment as the caller wrote it.
\<close>

fun find_project_loop ::
  "(string \<Rightarrow> string) \<Rightarrow> Project list \<Rightarrow> string \<Rightarrow> string \<Rightarrow> error + Project" where
  "find_project_loop mapLower [] nameLower name = Inl (ProjectNotFound name)"
| "find_project_loop mapLower (p # ps) nameLower name =
     (if Contains (ToLower mapLower (Project.Name p)) nameLower then Inr p
      else find_project_loop mapLower ps nameLower name)"

text \<open>
  \<open>FindProject\<close> first calls \<open>GetProjects\<close>; the model takes the outcome of that
  call (the listing, or the failure, which is passed on unchanged).
\<close>

definition FindProject ::
  "(string \<Rightarrow> string) \<Rightarrow> error + Project list \<Rightarrow> string \<Rightarrow> error + Project" where
  "FindProject mapLower getProjects name =
     (case getProjects of
        Inl err \<Rightarrow> Inl err
      | Inr projects \<Rightarrow> find_project_loop mapLower projects (ToLower mapLower name) name)"

text \<open>
  \<open>findSectionID\<close> returns the ID of the first matching section, and the empty
  string when the loop ends without a match.
\<close>

fun find_section_loop :: "(string \<Rightarrow> string) \<Rightarrow> Section list \<Rightarrow> string \<Rightarrow> string" where
  "find_section_loop mapLower [] nameLower = []"
| "find_section_loop mapLower (s # ss) nameLower =
     (if Contains (ToLower mapLower (Section.Name s)) nameLower then Section.ID s
      else find_section_loop mapLower ss nameLower)"

definition findSectionID :: "(string \<Rightarrow> string) \<Rightarrow> Section list \<Rightarrow> string \<Rightarrow> string" where
  "findSectionID mapLower sections name =
     find_section_loop mapLower sections (ToLower mapLower name)"

text \<open>
  The caller of \<open>findSectionID\<close> (the move command) turns the empty result into the
  "section not found" failure.
\<close>

definition resolveSection ::
  "(string \<Rightarrow> string) \<Rightarrow> Section list \<Rightarrow> string \<Rightarrow> error + string" where
  "resolveSection mapLower sections section =
     (let sectionID = findSectionID mapLower sections section
      in if sectionID = [] then Inl (SectionNotFound section) else Inr sectionID)"

section \<open>Priority conversion\<close>

text \<open>
  The add and update commands start from params whose \<open>Priority\<close> field has Go's zero
  value and assign \<open>5 - priority\<close> only under the guard \<open>priority > 0\<close>. The flag is a
  Go \<open>int\<close> (64 bits); under the guard \<open>5 - priority\<close> lies between \<open>5 - 2^63 + 1\<close> and
  \<open>4\<close>, so the subtraction never wraps and \<open>int\<close> models it exactly.
  The field is tagged \<open>omitempty\<close>: the request body carries a priority exactly when the
  field is not zero.
\<close>

definition convertPriority :: "int \<Rightarrow> int" where
  "convertPriority priority = (if priority > 0 then 5 - priority else 0)"

definition priorityField :: "int \<Rightarrow> int option" where
  "priorityField p = (if p = 0 then None else Some p)"

section \<open>Transport\<close>

subsection \<open>Durations and the rate-limit hint\<close>

text \<open>
  \<open>time.Duration\<close> is a signed 64-bit count of nanoseconds and Go's \<open>int\<close> has 64 bits on
  every platform the Makefile builds for. Both are modelled as \<open>int\<close> with the
  wrap-around of the multiplication written out (\<open>wrap64\<close>).
\<close>

definition wrap64 :: "int \<Rightarrow> int" where
  "wrap64 x = (x + 2 ^ 63) mod 2 ^ 64 - 2 ^ 63"

definition Second :: int where
  "Second = 1000000000"

definition maxRetries :: nat where
  "maxRetries = 3"

text \<open>
  \<open>strconv.Atoi\<close>: an optional sign, then at least one decimal digit and nothing
  else; a value outside the 64-bit range is an error.
\<close>

definition is_digit :: "char \<Rightarrow> bool" where
  "is_digit c = ((48::nat) \<le> of_char c \<and> of_char c \<le> (57::nat))"

definition digit_val :: "char \<Rightarrow> int" where
  "digit_val c = int (of_char c) - 48"

definition decimal :: "string \<Rightarrow> int" where
  "decimal ds = foldl (\<lambda>acc c. 10 * acc + digit_val c) 0 ds"

fun strip_sign :: "string \<Rightarrow> bool \<times> string" where
  "strip_sign [] = (False, [])"
| "strip_sign (c # cs) =
     (if c = CHR ''-'' then (True, cs)
      else if c = CHR ''+'' then (False, cs)
      else (False, c # cs))"

definition Atoi :: "string \<Rightarrow> int option" where
  "Atoi s =
     (case strip_sign s of
        (neg, ds) \<Rightarrow>
          (if ds \<noteq> [] \<and> list_all is_digit ds then
             (let v = (if neg then - decimal ds else decimal ds)
              in if - (2 ^ 63) \<le> v \<and> v \<le> 2 ^ 63 - 1 then Some v else None)
           else None))"

text \<open>
  The wait computed in the 429 branch from \<open>resp.Header.Get("Retry-After")\<close> (the empty
  string when the header is absent).
\<close>

definition rate_limit_wait :: "string \<Rightarrow> int" where
  "rate_limit_wait ra =
     (if ra \<noteq> [] then
        (case Atoi ra of
           Some secs \<Rightarrow> wrap64 (secs * Second)
         | None \<Rightarrow> 5 * Second)
      else 5 * Second)"

text \<open>
  The delay of the other wait branch, \<open>time.Duration(1<<uint(attempt-1)) * time.Second\<close>.
\<close>

definition backoff :: "nat \<Rightarrow> int" where
  "backoff attempt = wrap64 (wrap64 (2 ^ (attempt - 1)) * Second)"

subsection \<open>The environment of one call\<close>

text \<open>
  What the network does is an input of the model. \<open>serve env n\<close> is the outcome of the
  HTTP attempt made in iteration \<open>n\<close> of the loop: \<open>httpClient.Do\<close> fails, or it returns
  a response whose body fails to read, or status, Retry-After header and body arrive.
  \<open>ctxDone env n\<close> says that the \<open>select\<close> before attempt \<open>n\<close> takes its
  \<open>ctx.Done()\<close> case. \<open>marshalErr\<close> and \<open>newRequestErr\<close> are the errors of
  \<open>json.Marshal\<close> and \<open>http.NewRequestWithContext\<close>, when they fail.
\<close>

record Response =
  StatusCode :: int
  RetryAfter :: string
  Body :: string

datatype outcome = DoError string | ReadError string | Responded Response

record env =
  marshalErr :: "string option"
  newRequestErr :: "string option"
  ctxErr :: string
  ctxDone :: "nat \<Rightarrow> bool"
  serve :: "nat \<Rightarrow> outcome"

text \<open>
  What a call does, in order: \<open>Attempt n\<close> is the \<open>httpClient.Do\<close> of iteration \<open>n\<close>,
  \<open>Wait d\<close> the \<open>time.After\<close> armed with a \<open>retryAfterError\<close>'s duration,
  \<open>Backoff d\<close> the one armed with the exponential delay.
\<close>

datatype event = Attempt nat | Wait int | Backoff int

subsection \<open>One iteration of the retry loop\<close>

text \<open>The wait at the top of an iteration; \<open>Some\<close> is the early return of \<open>ctx.Err()\<close>.\<close>

definition wait_before :: "env \<Rightarrow> nat \<Rightarrow> error option \<Rightarrow> event list \<times> error option" where
  "wait_before e attempt lastErr =
     (if attempt > 0 then
        (case lastErr of
           None \<Rightarrow> ([], None)
         | Some (RetryAfterError after) \<Rightarrow>
             ([Wait after], if ctxDone e attempt then Some (ContextError (ctxErr e)) else None)
         | Some _ \<Rightarrow>
             ([Backoff (backoff attempt)],
              if ctxDone e attempt then Some (ContextError (ctxErr e)) else None))
      else ([], None))"

text \<open>
  An iteration either returns from \<open>requestCtx\<close> or reaches \<open>continue\<close> with a new
  \<open>lastErr\<close>.
\<close>

datatype step = Return "error + string" | Continue "error option"

definition handle_response :: "nat \<Rightarrow> Response \<Rightarrow> step" where
  "handle_response attempt resp =
     (if StatusCode resp = 429 \<and> attempt < maxRetries then
        Continue (Some (RetryAfterError (rate_limit_wait (RetryAfter resp))))
      else if StatusCode resp \<ge> 400 then
        (if StatusCode resp = 401 \<or> StatusCode resp = 403
         then Return (Inl (AuthError ''authentication failed''
                             (APIError (StatusCode resp) (Body resp))))
         else Return (Inl (APIError (StatusCode resp) (Body resp))))
      else Return (Inr (Body resp)))"

definition iteration :: "env \<Rightarrow> nat \<Rightarrow> error option \<Rightarrow> event list \<times> step" where
  "iteration e attempt lastErr =
     (case wait_before e attempt lastErr of
        (ws, Some err) \<Rightarrow> (ws, Return (Inl err))
      | (ws, None) \<Rightarrow>
          (case newRequestErr e of
             Some m \<Rightarrow> (ws, Return (Inl (CreateRequestError m)))
           | None \<Rightarrow>
               (case serve e attempt of
                  DoError m \<Rightarrow>
                    (ws @ [Attempt attempt], Return (Inl (NetworkError ''request failed'' m)))
                | ReadError m \<Rightarrow>
                    (ws @ [Attempt attempt],
                     Return (Inl (NetworkError ''failed to read response'' m)))
                | Responded resp \<Rightarrow>
                    (ws @ [Attempt attempt], handle_response attempt resp))))"

subsection \<open>The loop and the call\<close>

definition prepend :: "event list \<Rightarrow> event list \<times> (error + string) \<Rightarrow> event list \<times> (error + string)" where
  "prepend evs r = (evs @ fst r, snd r)"

function retry_loop :: "env \<Rightarrow> nat \<Rightarrow> error option \<Rightarrow> event list \<times> (error + string)" where
  "retry_loop e attempt lastErr =
     (if attempt \<le> maxRetries then
        (case iteration e attempt lastErr of
           (evs, Return r) \<Rightarrow> (evs, r)
         | (evs, Continue lastErr') \<Rightarrow> prepend evs (retry_loop e (Suc attempt) lastErr'))
      else ([], Inl (MaxRetriesExceeded lastErr)))"
  by pat_completeness auto
termination
  by (relation "measure (\<lambda>(e, attempt, lastErr). Suc maxRetries - attempt)") auto

declare retry_loop.simps [simp del]

text \<open>
  \<open>requestCtx\<close>: a payload of a non-GET request is marshalled first (a failure returns
  before any attempt), then the loop runs from attempt 0 with no \<open>lastErr\<close>. The result
  is the trace of events together with the returned bytes or error. The debug lines
  written to stderr are left out: they change neither.
\<close>

definition requestCtx :: "env \<Rightarrow> string \<Rightarrow> bool \<Rightarrow> event list \<times> (error + string)" where
  "requestCtx e method hasData =
     (if hasData \<and> method \<noteq> ''GET'' then
        (case marshalErr e of
           Some m \<Rightarrow> ([], Inl (MarshalError m))
         | None \<Rightarrow> retry_loop e 0 None)
      else retry_loop e 0 None)"


section \<open>Decoding list responses\<close>

text \<open>
  The response bytes are taken after \<open>encoding/json\<close> has scanned them: \<open>None\<close> is a body
  that is not valid JSON, \<open>Some j\<close> the value it spells. A number keeps its literal text,
  an object its members in the order written.
\<close>

datatype json =
    JNull
  | JBool bool
  | JNumber string
  | JString string
  | JArray "json list"
  | JObject "(string \<times> json) list"

text \<open>
  \<open>paginatedResponse\<close>: \<open>Results\<close> is a \<open>json.RawMessage\<close>, \<open>None\<close> while it is nil and
  otherwise the raw value stored in it; \<open>NextCursor\<close> is a \<open>*string\<close>.
\<close>

record paginatedResponse =
  Results :: "json option"
  NextCursor :: "string option"

definition upper_byte :: "char \<Rightarrow> char" where
  "upper_byte c =
     (if (97::nat) \<le> of_char c \<and> of_char c \<le> (122::nat)
      then char_of (of_char c - (32::nat)) else c)"

text \<open>
  A member's key selects the struct field whose tag has the same folded name
  (\<open>foldName\<close> of \<open>encoding/json\<close>; a key spelled exactly as a tag folds to the same
  name, so the lookup by exact spelling that comes first selects the same field). In the
  folded name the ASCII letters are in upper case. For a key with bytes outside ASCII the
  library also replaces each code point by the least of its Unicode case orbit; the
  folding of such keys is the parameter \<open>foldUnicode\<close> of the model.
\<close>

definition foldName :: "(string \<Rightarrow> string) \<Rightarrow> string \<Rightarrow> string" where
  "foldName foldUnicode k = (if list_all is_ascii k then map upper_byte k else foldUnicode k)"

definition key_is :: "(string \<Rightarrow> string) \<Rightarrow> string \<Rightarrow> string \<Rightarrow> bool" where
  "key_is foldUnicode k tag = (foldName foldUnicode k = foldName foldUnicode tag)"

text \<open>
  \<open>json.Unmarshal(data, &page)\<close>. The members are stored in the order written, a later
  one overwriting an earlier one. \<open>results\<close> takes any value raw (also \<open>null\<close>, which
  leaves the four bytes \<open>null\<close> in the field, not nil); \<open>next_cursor\<close> takes a string
  or \<open>null\<close>, anything else is a type error, which is remembered while decoding goes on
  and is returned at the end. Any other member is skipped. A top-level \<open>null\<close> changes
  nothing; any other value that is not an object is a type error.
\<close>

fun store_member ::
  "(string \<Rightarrow> string) \<Rightarrow> paginatedResponse \<times> bool \<Rightarrow> string \<times> json \<Rightarrow>
   paginatedResponse \<times> bool" where
  "store_member foldUnicode (page, bad) (k, v) =
     (if key_is foldUnicode k ''results'' then (page\<lparr>Results := Some v\<rparr>, bad)
      else if key_is foldUnicode k ''next_cursor'' then
        (case v of
           JNull \<Rightarrow> (page\<lparr>NextCursor := None\<rparr>, bad)
         | JString c \<Rightarrow> (page\<lparr>NextCursor := Some c\<rparr>, bad)
         | _ \<Rightarrow> (page, True))
      else (page, bad))"

definition unmarshal_page ::
  "(string \<Rightarrow> string) \<Rightarrow> json option \<Rightarrow> error + paginatedResponse" where
  "unmarshal_page foldUnicode data =
     (case data of
        None \<Rightarrow> Inl JSONSyntaxError
      | Some JNull \<Rightarrow> Inr \<lparr>Results = None, NextCursor = None\<rparr>
      | Some (JObject members) \<Rightarrow>
          (case foldl (store_member foldUnicode)
                  (\<lparr>Results = None, NextCursor = None\<rparr>, False) members of
             (page, bad) \<Rightarrow> if bad then Inl JSONTypeError else Inr page)
      | Some _ \<Rightarrow> Inl JSONTypeError)"

text \<open>
  \<open>json.Unmarshal(data, v)\<close> for \<open>v\<close> a pointer to a nil slice of a resource type. The
  decoding of one element is a parameter (\<open>decode\<close>), since it depends on the resource;
  an element that fails makes the call fail with the first such error. \<open>null\<close> leaves
  the slice nil, which the model does not tell apart from the empty slice.
\<close>

fun decode_elements :: "(json \<Rightarrow> error + 'a) \<Rightarrow> json list \<Rightarrow> error + 'a list" where
  "decode_elements decode [] = Inr []"
| "decode_elements decode (j # js) =
     (case decode j of
        Inl err \<Rightarrow> Inl err
      | Inr x \<Rightarrow>
          (case decode_elements decode js of
             Inl err \<Rightarrow> Inl err
           | Inr xs \<Rightarrow> Inr (x # xs)))"

definition unmarshal_slice :: "(json \<Rightarrow> error + 'a) \<Rightarrow> json option \<Rightarrow> error + 'a list" where
  "unmarshal_slice decode data =
     (case data of
        None \<Rightarrow> Inl JSONSyntaxError
      | Some JNull \<Rightarrow> Inr []
      | Some (JArray elems) \<Rightarrow> decode_elements decode elems
      | Some _ \<Rightarrow> Inl JSONTypeError)"

definition unmarshalList ::
  "(string \<Rightarrow> string) \<Rightarrow> (json \<Rightarrow> error + 'a) \<Rightarrow> json option \<Rightarrow> error + 'a list" where
  "unmarshalList foldUnicode decode data =
     (case unmarshal_page foldUnicode data of
        Inr page \<Rightarrow>
          (case Results page of
             Some raw \<Rightarrow> unmarshal_slice decode (Some raw)
           | None \<Rightarrow> unmarshal_slice decode data)
      | Inl err \<Rightarrow> unmarshal_slice decode data)"

section \<open>Vocabulary of the properties\<close>

text \<open>
  The matching condition in the words of the specification: the lowercased name contains
  the lowercased fragment as a substring, and \<open>i\<close> is the first index of a listing at
  which it does.
\<close>

definition name_matches :: "(string \<Rightarrow> string) \<Rightarrow> string \<Rightarrow> string \<Rightarrow> bool" where
  "name_matches mapLower q n =
     (\<exists>pre post. ToLower mapLower n = pre @ ToLower mapLower q @ post)"

definition is_first_match ::
  "(string \<Rightarrow> string) \<Rightarrow> string \<Rightarrow> string list \<Rightarrow> nat \<Rightarrow> bool" where
  "is_first_match mapLower q names i =
     (i < length names \<and> name_matches mapLower q (names ! i) \<and>
      (\<forall>j<i. \<not> name_matches mapLower q (names ! j)))"

text \<open>The values a pagination cursor takes on the wire: a string or \<open>null\<close>.\<close>

definition is_cursor :: "json \<Rightarrow> bool" where
  "is_cursor c = (case c of JNull \<Rightarrow> True | JString s \<Rightarrow> True | _ \<Rightarrow> False)"

text \<open>
  A run of the transport in which the server answers 429 to the first \<open>k\<close> attempts is
  described by: the outcomes that are rate-limit responses, the wait each of them asks
  for, and the events such a run consists of (attempt 0, then a wait and an attempt per
  retry). An outcome is terminal in iteration \<open>attempt\<close> when the loop does not retry it.
\<close>

definition rate_limited :: "outcome \<Rightarrow> bool" where
  "rate_limited oc = (case oc of Responded r \<Rightarrow> StatusCode r = 429 | _ \<Rightarrow> False)"

definition hint :: "env \<Rightarrow> nat \<Rightarrow> int" where
  "hint e n =
     (case serve e n of
        Responded r \<Rightarrow> rate_limit_wait (RetryAfter r)
      | _ \<Rightarrow> 5 * Second)"

fun expected_events :: "env \<Rightarrow> nat \<Rightarrow> nat \<Rightarrow> event list" where
  "expected_events e a 0 = [Attempt a]"
| "expected_events e a (Suc n) = Attempt a # Wait (hint e a) # expected_events e (Suc a) n"

definition terminal :: "nat \<Rightarrow> outcome \<Rightarrow> bool" where
  "terminal attempt oc = (\<not> (rate_limited oc \<and> attempt < maxRetries))"

text \<open>The classification of a terminal outcome, as the specification words it.\<close>

definition classify :: "Response \<Rightarrow> error + string" where
  "classify r =
     (if StatusCode r < 400 then Inr (Body r)
      else if StatusCode r = 401 \<or> StatusCode r = 403
      then Inl (AuthError ''authentication failed'' (APIError (StatusCode r) (Body r)))
      else Inl (APIError (StatusCode r) (Body r)))"

definition finish :: "outcome \<Rightarrow> error + string" where
  "finish oc =
     (case oc of
        DoError m \<Rightarrow> Inl (NetworkError ''request failed'' m)
      | ReadError m \<Rightarrow> Inl (NetworkError ''failed to read response'' m)
      | Responded r \<Rightarrow> classify r)"

definition is_attempt :: "event \<Rightarrow> bool" where
  "is_attempt ev = (case ev of Attempt n \<Rightarrow> True | _ \<Rightarrow> False)"



section \<open>Example inputs\<close>

definition mkProject :: "string \<Rightarrow> string \<Rightarrow> Project" where
  "mkProject i n =
     \<lparr>Project.ID = i, Name = n, Color = [], ParentID = [], Order = 0, CommentCount = 0,
      IsShared = False, IsFavorite = False, IsInboxProject = False, IsTeamInbox = False,
      ViewStyle = [], URL = []\<rparr>"

definition mkSection :: "string \<Rightarrow> string \<Rightarrow> Section" where
  "mkSection i n = \<lparr>Section.ID = i, ProjectID = ''1'', Order = 0, Name = n\<rparr>"

definition listing :: "Project list" where
  "listing =
     [mkProject ''1'' ''Work'', mkProject ''2'' ''Personal'', mkProject ''3'' ''Work Projects'']"

definition board :: "Section list" where
  "board = [mkSection ''10'' ''To Do'', mkSection ''11'' ''Working On'', mkSection ''12'' ''Done'']"

text \<open>
  A lowering for names in the Latin-1 range, as an instance of the library's Unicode
  path: in UTF-8 the capital letters U+00C0 to U+00DE (without the sign U+00D7) are the
  byte \<open>0xC3\<close> followed by \<open>0x80\<close>..\<open>0x9E\<close>, and the small letter is \<open>0x20\<close> further.
\<close>

fun latin1_lower :: "string \<Rightarrow> string" where
  "latin1_lower (c # d # cs) =
     (if c = CHR 0xC3 \<and> (128::nat) \<le> of_char d \<and> of_char d \<le> (158::nat) \<and> d \<noteq> CHR 0x97
      then c # char_of (of_char d + (32::nat)) # latin1_lower cs
      else lower_byte c # latin1_lower (d # cs))"
| "latin1_lower cs = map lower_byte cs"

text \<open>Two listings with the name \<open>ECOLE\<close>, its first letter U+00C9, and the query in small letters.\<close>

definition ecole_query :: string where
  "ecole_query = CHR 0xC3 # CHR 0xA9 # ''cole''"

definition schools :: "Project list" where
  "schools = [mkProject ''1'' ''Work'', mkProject ''2'' (CHR 0xC3 # CHR 0x89 # ''COLE'')]"

definition primary_schools :: "Project list" where
  "primary_schools =
     [mkProject ''1'' (CHR 0xC3 # CHR 0x89 # ''COLE primaire''),
      mkProject ''2'' (CHR 0xC3 # CHR 0xA9 # ''cole'')]"

definition decode_name :: "json \<Rightarrow> error + string" where
  "decode_name j = (case j of JString s \<Rightarrow> Inr s | _ \<Rightarrow> Inl JSONTypeError)"

text \<open>A server that answers every attempt with the same response.\<close>

definition respond_with :: "Response \<Rightarrow> env" where
  "respond_with r =
     \<lparr>marshalErr = None, newRequestErr = None, ctxErr = ''context canceled'',
      ctxDone = (\<lambda>n. False), serve = (\<lambda>n. Responded r)\<rparr>"

text \<open>A server that answers 429 with \<open>Retry-After: 1\<close> to every attempt.\<close>

definition always_429 :: env where
  "always_429 =
     \<lparr>marshalErr = None, newRequestErr = None, ctxErr = ''context canceled'',
      ctxDone = (\<lambda>n. False),
      serve = (\<lambda>n. Responded \<lparr>StatusCode = 429, RetryAfter = ''1'', Body = ''rate limited''\<rparr>)\<rparr>"

text \<open>
  A server that answers 429 with \<open>Retry-After: 9223372037\<close> to the first attempt and 200
  to the next.
\<close>

definition huge_hint :: env where
  "huge_hint =
     \<lparr>marshalErr = None, newRequestErr = None, ctxErr = ''context canceled'',
      ctxDone = (\<lambda>n. False),
      serve = (\<lambda>n. if n = 0
                    then Responded \<lparr>StatusCode = 429, RetryAfter = ''9223372037'',
                                    Body = ''rate limited''\<rparr>
                    else Responded \<lparr>StatusCode = 200, RetryAfter = [], Body = ''[]''\<rparr>)\<rparr>"

text \<open>
  A server that answers 429 twice, with \<open>Retry-After: 3\<close> and then without the header,
  and 200 afterwards.
\<close>

definition twice_429 :: env where
  "twice_429 =
     \<lparr>marshalErr = None, newRequestErr = None, ctxErr = ''context canceled'',
      ctxDone = (\<lambda>n. False),
      serve = (\<lambda>n. if n = 0
                    then Responded \<lparr>StatusCode = 429, RetryAfter = ''3'', Body = ''rate limited''\<rparr>
                    else if n = 1
                    then Responded \<lparr>StatusCode = 429, RetryAfter = [], Body = ''rate limited''\<rparr>
                    else Responded \<lparr>StatusCode = 200, RetryAfter = [], Body = ''[]''\<rparr>)\<rparr>"

text \<open>A connection that is refused on the retry after one 429.\<close>

definition fail_after_429 :: env where
  "fail_after_429 =
     \<lparr>marshalErr = None, newRequestErr = None, ctxErr = ''context canceled'',
      ctxDone = (\<lambda>n. False),
      serve = (\<lambda>n. if n = 0
                    then Responded \<lparr>StatusCode = 429, RetryAfter = ''2'', Body = ''rate limited''\<rparr>
                    else DoError ''connection refused'')\<rparr>"

section \<open>Name resolution: first match in listing order\<close>

lemma HasPrefix_iff: "HasPrefix s p \<longleftrightarrow> (\<exists>post. s = p @ post)"
  by (induction s p rule: HasPrefix.induct) auto

lemma Contains_iff: "Contains s sub \<longleftrightarrow> (\<exists>pre post. s = pre @ sub @ post)"
proof (induction s)
  case Nil
  then show ?case by auto
next
  case (Cons c cs)
  show ?case
  proof
    assume "Contains (c # cs) sub"
    then consider "HasPrefix (c # cs) sub" | "Contains cs sub" by auto
    then show "\<exists>pre post. c # cs = pre @ sub @ post"
    proof cases
      case 1
      then obtain post where "c # cs = sub @ post" using HasPrefix_iff by blast
      then have "c # cs = [] @ sub @ post" by simp
      then show ?thesis by blast
    next
      case 2
      then obtain pre post where "cs = pre @ sub @ post" using Cons.IH by blast
      then have "c # cs = (c # pre) @ sub @ post" by simp
      then show ?thesis by blast
    qed
  next
    assume "\<exists>pre post. c # cs = pre @ sub @ post"
    then obtain pre post where eq: "c # cs = pre @ sub @ post" by blast
    show "Contains (c # cs) sub"
    proof (cases pre)
      case Nil
      then have "HasPrefix (c # cs) sub" using eq HasPrefix_iff by auto
      then show ?thesis by simp
    next
      case (Cons d pre')
      then have "cs = pre' @ sub @ post" using eq by simp
      then have "Contains cs sub" using Cons.IH by blast
      then show ?thesis by simp
    qed
  qed
qed

lemma Contains_empty: "Contains s [] = True"
  by (cases s) simp_all

lemma Contains_name_matches:
  "Contains (ToLower mapLower n) (ToLower mapLower q) = name_matches mapLower q n"
  by (simp add: Contains_iff name_matches_def)

lemma find_project_loop_find:
  "find_project_loop mapLower L (ToLower mapLower q) q =
     (case find (\<lambda>p. name_matches mapLower q (Project.Name p)) L of
        Some p \<Rightarrow> Inr p
      | None \<Rightarrow> Inl (ProjectNotFound q))"
  by (induction L) (simp_all add: Contains_name_matches)

lemma find_section_loop_find:
  "find_section_loop mapLower S (ToLower mapLower q) =
     (case find (\<lambda>s. name_matches mapLower q (Section.Name s)) S of
        Some s \<Rightarrow> Section.ID s
      | None \<Rightarrow> [])"
  by (induction S) (simp_all add: Contains_name_matches)

lemma find_first:
  assumes "i < length xs" "P (xs ! i)" "\<forall>j<i. \<not> P (xs ! j)"
  shows "find P xs = Some (xs ! i)"
  using assms by (auto simp: find_Some_iff)

lemma find_none:
  assumes "\<forall>i<length xs. \<not> P (xs ! i)"
  shows "find P xs = None"
  using assms by (auto simp: find_None_iff in_set_conv_nth)

text \<open>
  C4. For every listing, every fragment \<open>q\<close> and whatever the Unicode lowering of the
  library does: when index \<open>i\<close> is the first one whose lowercased name contains the
  lowercased \<open>q\<close> as a substring, \<open>FindProject\<close> returns the project at \<open>i\<close> and
  \<open>findSectionID\<close> the ID of the section at that index, whatever matches later in the
  listing (the caller of \<open>findSectionID\<close> passes that ID on when it is not empty); when no
  name matches, \<open>FindProject\<close> fails with "project not found", \<open>findSectionID\<close> returns
  the empty string and its caller fails with "section not found".
\<close>

theorem resolve_first_match:
  "(is_first_match mapLower q (map Project.Name L) i \<longrightarrow>
      FindProject mapLower (Inr L) q = Inr (L ! i)) \<and>
   ((\<forall>j<length L. \<not> name_matches mapLower q (Project.Name (L ! j))) \<longrightarrow>
      FindProject mapLower (Inr L) q = Inl (ProjectNotFound q)) \<and>
   (is_first_match mapLower q (map Section.Name S) k \<longrightarrow>
      findSectionID mapLower S q = Section.ID (S ! k) \<and>
      (Section.ID (S ! k) \<noteq> [] \<longrightarrow> resolveSection mapLower S q = Inr (Section.ID (S ! k)))) \<and>
   ((\<forall>j<length S. \<not> name_matches mapLower q (Section.Name (S ! j))) \<longrightarrow>
      findSectionID mapLower S q = [] \<and>
      resolveSection mapLower S q = Inl (SectionNotFound q))"
proof (intro conjI impI)
  assume m: "is_first_match mapLower q (map Project.Name L) i"
  then have "find (\<lambda>p. name_matches mapLower q (Project.Name p)) L = Some (L ! i)"
    by (intro find_first) (auto simp: is_first_match_def)
  then show "FindProject mapLower (Inr L) q = Inr (L ! i)"
    by (simp add: FindProject_def find_project_loop_find)
next
  assume "\<forall>j<length L. \<not> name_matches mapLower q (Project.Name (L ! j))"
  then have "find (\<lambda>p. name_matches mapLower q (Project.Name p)) L = None"
    by (rule find_none)
  then show "FindProject mapLower (Inr L) q = Inl (ProjectNotFound q)"
    by (simp add: FindProject_def find_project_loop_find)
next
  assume m: "is_first_match mapLower q (map Section.Name S) k"
  then have "find (\<lambda>s. name_matches mapLower q (Section.Name s)) S = Some (S ! k)"
    by (intro find_first) (auto simp: is_first_match_def)
  then show id: "findSectionID mapLower S q = Section.ID (S ! k)"
    by (simp add: findSectionID_def find_section_loop_find)
  assume "Section.ID (S ! k) \<noteq> []"
  then show "resolveSection mapLower S q = Inr (Section.ID (S ! k))"
    using id by (simp add: resolveSection_def)
next
  assume n: "\<forall>j<length S. \<not> name_matches mapLower q (Section.Name (S ! j))"
  then have "find (\<lambda>s. name_matches mapLower q (Section.Name s)) S = None"
    by (rule find_none)
  then show "findSectionID mapLower S q = []"
    by (simp add: findSectionID_def find_section_loop_find)
  then show "resolveSection mapLower S q = Inl (SectionNotFound q)"
    by (simp add: resolveSection_def)
qed

theorem resolve_first_match_witness:
  "is_first_match latin1_lower ''work'' (map Project.Name listing) 0 \<and>
   FindProject latin1_lower (Inr listing) ''work'' = Inr (mkProject ''1'' ''Work'') \<and>
   is_first_match latin1_lower ''PRO'' (map Project.Name listing) 2 \<and>
   FindProject latin1_lower (Inr listing) ''PRO'' = Inr (mkProject ''3'' ''Work Projects'') \<and>
   \<not> (\<exists>j<length listing. name_matches latin1_lower ''xyz'' (Project.Name (listing ! j))) \<and>
   FindProject latin1_lower (Inr listing) ''xyz'' = Inl (ProjectNotFound ''xyz'') \<and>
   is_first_match latin1_lower ecole_query (map Project.Name schools) 1 \<and>
   FindProject latin1_lower (Inr schools) ecole_query =
     Inr (mkProject ''2'' (CHR 0xC3 # CHR 0x89 # ''COLE'')) \<and>
   is_first_match latin1_lower ecole_query (map Project.Name primary_schools) 0 \<and>
   FindProject latin1_lower (Inr primary_schools) ecole_query =
     Inr (mkProject ''1'' (CHR 0xC3 # CHR 0x89 # ''COLE primaire'')) \<and>
   is_first_match latin1_lower ''work'' (map Section.Name board) 1 \<and>
   findSectionID latin1_lower board ''work'' = ''11'' \<and>
   resolveSection latin1_lower board ''work'' = Inr ''11'' \<and>
   \<not> (\<exists>j<length board. name_matches latin1_lower ''xyz'' (Section.Name (board ! j))) \<and>
   findSectionID latin1_lower board ''xyz'' = [] \<and>
   resolveSection latin1_lower board ''xyz'' = Inl (SectionNotFound ''xyz'')"
proof -
  have names: "map Project.Name listing = [''Work'', ''Personal'', ''Work Projects'']"
    "map Section.Name board = [''To Do'', ''Working On'', ''Done'']"
    "map Project.Name schools = [''Work'', CHR 0xC3 # CHR 0x89 # ''COLE'']"
    "map Project.Name primary_schools =
       [CHR 0xC3 # CHR 0x89 # ''COLE primaire'', CHR 0xC3 # CHR 0xA9 # ''cole'']"
    by (simp_all add: listing_def board_def schools_def primary_schools_def
          mkProject_def mkSection_def)
  have yes: "name_matches latin1_lower ''work'' ''Work''"
    "name_matches latin1_lower ''PRO'' ''Work Projects''"
    "name_matches latin1_lower ''work'' ''Working On''"
    "name_matches latin1_lower ecole_query (CHR 0xC3 # CHR 0x89 # ''COLE'')"
    "name_matches latin1_lower ecole_query (CHR 0xC3 # CHR 0x89 # ''COLE primaire'')"
    unfolding Contains_name_matches [symmetric] by code_simp+
  have no: "\<not> name_matches latin1_lower ''PRO'' ''Work''"
    "\<not> name_matches latin1_lower ''PRO'' ''Personal''"
    "\<not> name_matches latin1_lower ''xyz'' ''Work''"
    "\<not> name_matches latin1_lower ''xyz'' ''Personal''"
    "\<not> name_matches latin1_lower ''xyz'' ''Work Projects''"
    "\<not> name_matches latin1_lower ''work'' ''To Do''"
    "\<not> name_matches latin1_lower ''xyz'' ''To Do''"
    "\<not> name_matches latin1_lower ''xyz'' ''Working On''"
    "\<not> name_matches latin1_lower ''xyz'' ''Done''"
    "\<not> name_matches latin1_lower ecole_query ''Work''"
    unfolding Contains_name_matches [symmetric] by code_simp+
  have a: "is_first_match latin1_lower ''work'' (map Project.Name listing) 0"
    using yes by (simp add: names is_first_match_def)
  have b: "is_first_match latin1_lower ''PRO'' (map Project.Name listing) 2"
    using yes no by (simp add: names is_first_match_def less_Suc_eq numeral_2_eq_2)
  have c: "\<forall>j<length listing. \<not> name_matches latin1_lower ''xyz'' (Project.Name (listing ! j))"
    using no names(1) [symmetric]
    by (simp add: less_Suc_eq listing_def all_conj_distrib)
  have d: "is_first_match latin1_lower ''work'' (map Section.Name board) 1"
    using yes no by (simp add: names is_first_match_def)
  have f: "\<forall>j<length board. \<not> name_matches latin1_lower ''xyz'' (Section.Name (board ! j))"
    using no names(2) [symmetric]
    by (simp add: less_Suc_eq board_def all_conj_distrib)
  have g: "is_first_match latin1_lower ecole_query (map Project.Name schools) 1"
    using yes no by (simp add: names is_first_match_def)
  have h: "is_first_match latin1_lower ecole_query (map Project.Name primary_schools) 0"
    using yes by (simp add: names is_first_match_def)
  have l0: "listing ! 0 = mkProject ''1'' ''Work''"
    "listing ! 2 = mkProject ''3'' ''Work Projects''"
    "Section.ID (board ! 1) = ''11''"
    "schools ! 1 = mkProject ''2'' (CHR 0xC3 # CHR 0x89 # ''COLE'')"
    "primary_schools ! 0 = mkProject ''1'' (CHR 0xC3 # CHR 0x89 # ''COLE primaire'')"
    by (simp_all add: listing_def board_def schools_def primary_schools_def mkSection_def)
  show ?thesis
    using a b c d f g h l0
      resolve_first_match [of latin1_lower "''work''" listing 0 board 1]
      resolve_first_match [of latin1_lower "''PRO''" listing 2 board 1]
      resolve_first_match [of latin1_lower "''xyz''" listing 0 board 1]
      resolve_first_match [of latin1_lower ecole_query schools 1 board 1]
      resolve_first_match [of latin1_lower ecole_query primary_schools 0 board 1]
    by simp
qed

text \<open>
  C10. On a listing that is not empty, \<open>FindProject\<close> with the empty fragment does not
  fail: it returns the first project of the listing.
\<close>

theorem FindProject_empty_fragment:
  "L \<noteq> [] \<Longrightarrow> FindProject mapLower (Inr L) [] = Inr (hd L)"
  by (cases L) (simp_all add: FindProject_def ToLower_def Contains_empty)

theorem FindProject_empty_fragment_witness:
  "listing \<noteq> [] \<and> FindProject latin1_lower (Inr listing) [] = Inr (mkProject ''1'' ''Work'')"
  using FindProject_empty_fragment [of listing latin1_lower]
  by (simp add: listing_def)

section \<open>Priority conversion at the command boundary\<close>

text \<open>
  C5. On the user-facing priorities 1 to 4 the conversion is \<open>5 - p\<close>, it maps
  \<open>{1,2,3,4}\<close> one-to-one onto \<open>{4,3,2,1}\<close> and undoes itself; priority 0 is not
  converted, the field keeps its zero value and the params carry no priority.
\<close>

theorem priority_conversion:
  "(\<forall>p\<in>{1, 2, 3, 4}. convertPriority p = 5 - p \<and> convertPriority (convertPriority p) = p) \<and>
   bij_betw convertPriority {1, 2, 3, 4} {4, 3, 2, 1} \<and>
   convertPriority 0 = 0 \<and> priorityField (convertPriority 0) = None \<and>
   (\<forall>p\<in>{1, 2, 3, 4}. priorityField (convertPriority p) = Some (5 - p))"
  by (auto simp: convertPriority_def priorityField_def bij_betw_def inj_on_def)

theorem priority_conversion_witness:
  "(1::int) \<in> {1, 2, 3, 4} \<and> convertPriority 1 = 4 \<and> convertPriority 2 = 3 \<and>
   convertPriority 3 = 2 \<and> convertPriority 4 = 1 \<and>
   convertPriority (convertPriority 3) = 3 \<and>
   priorityField (convertPriority 1) = Some 4 \<and> priorityField (convertPriority 0) = None"
  using priority_conversion by (simp add: priorityField_def)

section \<open>Decoding: envelope first, bare array as fallback\<close>

lemma ascii_tags: "list_all is_ascii ''results''" "list_all is_ascii ''next_cursor''"
  by (simp_all add: is_ascii_def)

lemma foldName_tags:
  "foldName foldUnicode ''results'' = map upper_byte ''results''"
  "foldName foldUnicode ''next_cursor'' = map upper_byte ''next_cursor''"
  by (simp_all only: foldName_def ascii_tags if_True)

lemma key_is_tags:
  "key_is foldUnicode ''results'' ''results''"
  "\<not> key_is foldUnicode ''next_cursor'' ''results''"
  "key_is foldUnicode ''next_cursor'' ''next_cursor''"
  by (simp_all add: key_is_def foldName_tags)

lemma unmarshal_page_envelope:
  "is_cursor c \<Longrightarrow>
   \<exists>cur. unmarshal_page foldUnicode (Some (JObject [(''results'', v), (''next_cursor'', c)])) =
           Inr \<lparr>Results = Some v, NextCursor = cur\<rparr>"
  by (cases c) (simp_all add: unmarshal_page_def is_cursor_def key_is_tags)

text \<open>
  C6. \<open>unmarshalList\<close> tries the envelope first: when the body decodes as an envelope
  whose \<open>results\<close> is present, exactly that raw value is decoded; when the envelope
  decoding fails, or finds no \<open>results\<close>, the body itself is decoded as an array. So the
  body \<open>{"results": A, "next_cursor": c}\<close> (with \<open>c\<close> a cursor: a string or null) yields
  the decoded elements of \<open>A\<close>, the bare array \<open>A\<close> yields the same, and the two forms
  give identical output.
\<close>

theorem unmarshalList_envelope_or_bare:
  "(is_cursor c \<longrightarrow>
      unmarshalList foldUnicode decode (Some (JObject [(''results'', JArray A), (''next_cursor'', c)])) =
        decode_elements decode A) \<and>
   unmarshalList foldUnicode decode (Some (JArray A)) = decode_elements decode A \<and>
   (is_cursor c \<longrightarrow>
      unmarshalList foldUnicode decode (Some (JObject [(''results'', JArray A), (''next_cursor'', c)])) =
        unmarshalList foldUnicode decode (Some (JArray A))) \<and>
   (\<forall>page raw. unmarshal_page foldUnicode data = Inr page \<and> Results page = Some raw \<longrightarrow>
      unmarshalList foldUnicode decode data = unmarshal_slice decode (Some raw)) \<and>
   (\<forall>page. unmarshal_page foldUnicode data = Inr page \<and> Results page = None \<longrightarrow>
      unmarshalList foldUnicode decode data = unmarshal_slice decode data) \<and>
   (\<forall>err. unmarshal_page foldUnicode data = Inl err \<longrightarrow>
      unmarshalList foldUnicode decode data = unmarshal_slice decode data)"
proof -
  have bare: "unmarshalList foldUnicode decode (Some (JArray A)) = decode_elements decode A"
    by (simp add: unmarshalList_def unmarshal_page_def unmarshal_slice_def)
  have env:
    "unmarshalList foldUnicode decode (Some (JObject [(''results'', JArray A), (''next_cursor'', c)])) =
       decode_elements decode A" if cur: "is_cursor c"
  proof -
    obtain nc where
      "unmarshal_page foldUnicode
         (Some (JObject [(''results'', JArray A), (''next_cursor'', c)])) =
         Inr \<lparr>Results = Some (JArray A), NextCursor = nc\<rparr>"
      using unmarshal_page_envelope [OF cur] by blast
    then show ?thesis by (simp add: unmarshalList_def unmarshal_slice_def)
  qed
  show ?thesis using bare env by (simp add: unmarshalList_def)
qed

theorem unmarshalList_envelope_or_bare_witness:
  "is_cursor JNull \<and> is_cursor (JString ''abc'') \<and>
   unmarshalList latin1_lower decode_name
     (Some (JObject [(''results'', JArray [JString ''Work'', JString ''Home'']),
                     (''next_cursor'', JNull)])) = Inr [''Work'', ''Home''] \<and>
   unmarshalList latin1_lower decode_name
     (Some (JObject [(''results'', JArray [JString ''Work'', JString ''Home'']),
                     (''next_cursor'', JString ''abc'')])) =
   unmarshalList latin1_lower decode_name (Some (JArray [JString ''Work'', JString ''Home''])) \<and>
   unmarshal_page latin1_lower (Some (JObject [(''results'', JArray [JString ''Work''])])) =
     Inr \<lparr>Results = Some (JArray [JString ''Work'']), NextCursor = None\<rparr> \<and>
   unmarshalList latin1_lower decode_name (Some (JObject [(''results'', JArray [JString ''Work''])])) =
     Inr [''Work''] \<and>
   unmarshal_page latin1_lower (Some (JObject [(''id'', JString ''7'')])) =
     Inr \<lparr>Results = None, NextCursor = None\<rparr> \<and>
   unmarshalList latin1_lower decode_name (Some (JObject [(''id'', JString ''7'')])) = Inl JSONTypeError \<and>
   unmarshal_page latin1_lower (Some (JArray [JString ''Work''])) = Inl JSONTypeError \<and>
   unmarshalList latin1_lower decode_name (Some (JArray [JString ''Work''])) = Inr [''Work'']"
  using unmarshalList_envelope_or_bare
          [of JNull latin1_lower decode_name "[JString ''Work'', JString ''Home'']"
              "Some (JObject [(''results'', JArray [JString ''Work''])])"]
        unmarshalList_envelope_or_bare
          [of "JString ''abc''" latin1_lower decode_name "[JString ''Work'', JString ''Home'']"
              "Some (JObject [(''id'', JString ''7'')])"]
        unmarshalList_envelope_or_bare
          [of JNull latin1_lower decode_name "[JString ''Work'']" "Some (JArray [JString ''Work''])"]
  by (simp add: is_cursor_def decode_name_def unmarshal_page_def key_is_def foldName_def
        is_ascii_def upper_byte_def unmarshal_slice_def)

section \<open>Transport: the run of the retry loop\<close>

lemma handle_response_terminal:
  "\<not> (StatusCode r = 429 \<and> attempt < maxRetries) \<Longrightarrow>
   handle_response attempt r = Return (classify r)"
  by (auto simp: handle_response_def classify_def)

lemma handle_response_retry:
  "StatusCode r = 429 \<Longrightarrow> attempt < maxRetries \<Longrightarrow>
   handle_response attempt r = Continue (Some (RetryAfterError (rate_limit_wait (RetryAfter r))))"
  by (simp add: handle_response_def)

lemma iteration_terminal:
  assumes "wait_before e a le = (ws, None)" "newRequestErr e = None" "terminal a (serve e a)"
  shows "iteration e a le = (ws @ [Attempt a], Return (finish (serve e a)))"
  using assms
  by (cases "serve e a")
     (simp_all add: iteration_def finish_def terminal_def rate_limited_def
        handle_response_terminal)

lemma iteration_retry:
  assumes "wait_before e a le = (ws, None)" "newRequestErr e = None"
    "rate_limited (serve e a)" "a < maxRetries"
  shows "iteration e a le = (ws @ [Attempt a], Continue (Some (RetryAfterError (hint e a))))"
  using assms
  by (cases "serve e a")
     (simp_all add: iteration_def rate_limited_def hint_def handle_response_retry)

lemma wait_before_retry:
  "\<not> ctxDone e (Suc a) \<Longrightarrow>
   wait_before e (Suc a) (Some (RetryAfterError w)) = ([Wait w], None)"
  by (simp add: wait_before_def)

lemma retry_loop_run:
  assumes nr: "newRequestErr e = None"
  shows "wait_before e a le = (ws, None) \<Longrightarrow> a + n \<le> maxRetries \<Longrightarrow>
    (\<forall>i. a \<le> i \<and> i < a + n \<longrightarrow> rate_limited (serve e i)) \<Longrightarrow>
    (\<forall>i. a < i \<and> i \<le> a + n \<longrightarrow> \<not> ctxDone e i) \<Longrightarrow>
    terminal (a + n) (serve e (a + n)) \<Longrightarrow>
    retry_loop e a le = (ws @ expected_events e a n, finish (serve e (a + n)))"
proof (induction n arbitrary: a le ws)
  case 0
  then show ?case
    using iteration_terminal [OF 0(1) nr] by (simp add: retry_loop.simps [of e a le])
next
  case (Suc n)
  have it: "iteration e a le = (ws @ [Attempt a], Continue (Some (RetryAfterError (hint e a))))"
    using Suc.prems by (intro iteration_retry nr) auto
  have w: "wait_before e (Suc a) (Some (RetryAfterError (hint e a))) = ([Wait (hint e a)], None)"
    using Suc.prems by (intro wait_before_retry) auto
  have "retry_loop e (Suc a) (Some (RetryAfterError (hint e a))) =
          ([Wait (hint e a)] @ expected_events e (Suc a) n, finish (serve e (Suc a + n)))"
    using Suc.prems by (intro Suc.IH [OF w]) auto
  then show ?case
    using it Suc.prems(2) by (simp add: retry_loop.simps [of e a le] prepend_def)
qed

lemma requestCtx_run:
  assumes "hasData \<and> method \<noteq> ''GET'' \<longrightarrow> marshalErr e = None"
    and "newRequestErr e = None"
    and "k \<le> maxRetries"
    and "\<forall>i<k. rate_limited (serve e i)"
    and "\<forall>i. 0 < i \<and> i \<le> k \<longrightarrow> \<not> ctxDone e i"
    and "terminal k (serve e k)"
  shows "requestCtx e method hasData = (expected_events e 0 k, finish (serve e k))"
proof -
  have w: "wait_before e 0 None = ([], None)" by (simp add: wait_before_def)
  have "retry_loop e 0 None = ([] @ expected_events e 0 k, finish (serve e (0 + k)))"
    using assms by (intro retry_loop_run [OF assms(2) w]) auto
  then show ?thesis using assms(1) by (auto simp: requestCtx_def)
qed

lemma expected_events_nonempty: "expected_events e a n \<noteq> []"
  by (cases n) simp_all

lemma last_expected_events: "last (expected_events e a n) = Attempt (a + n)"
  by (induction n arbitrary: a) (simp_all add: expected_events_nonempty)

lemma attempts_expected_events: "length (filter is_attempt (expected_events e a n)) = Suc n"
  by (induction n arbitrary: a) (simp_all add: is_attempt_def)

section \<open>Transport: terminal responses and network errors\<close>

text \<open>
  C7. When the loop reaches attempt \<open>k\<close> (the earlier attempts were answered 429, no wait
  was cancelled, the request could be built) and the response to it is not retried (its
  status is not 429, or \<open>k\<close> is the last attempt), the call returns by status: below 400
  the body and no error; 401 and 403 an authentication failure; any other status from 400
  on an API failure with the status and the body.
\<close>

theorem terminal_response_classification:
  assumes "hasData \<and> method \<noteq> ''GET'' \<longrightarrow> marshalErr e = None"
    and "newRequestErr e = None"
    and "k \<le> maxRetries"
    and "\<forall>i<k. rate_limited (serve e i)"
    and "\<forall>i. 0 < i \<and> i \<le> k \<longrightarrow> \<not> ctxDone e i"
    and "serve e k = Responded r"
    and "\<not> (StatusCode r = 429 \<and> k < maxRetries)"
  shows "snd (requestCtx e method hasData) =
           (if StatusCode r < 400 then Inr (Body r)
            else if StatusCode r = 401 \<or> StatusCode r = 403
            then Inl (AuthError ''authentication failed'' (APIError (StatusCode r) (Body r)))
            else Inl (APIError (StatusCode r) (Body r)))"
proof -
  have "terminal k (serve e k)"
    using assms(6,7) by (simp add: terminal_def rate_limited_def)
  then have "requestCtx e method hasData = (expected_events e 0 k, finish (serve e k))"
    using assms(1-5) by (rule requestCtx_run [rotated -1])
  then show ?thesis using assms(6) by (simp add: finish_def classify_def)
qed

theorem terminal_response_classification_witness:
  "snd (requestCtx (respond_with \<lparr>StatusCode = 200, RetryAfter = [], Body = ''[]''\<rparr>)
          ''GET'' False) = Inr ''[]'' \<and>
   snd (requestCtx (respond_with \<lparr>StatusCode = 304, RetryAfter = [], Body = []\<rparr>)
          ''GET'' False) = Inr [] \<and>
   snd (requestCtx (respond_with \<lparr>StatusCode = 401, RetryAfter = [], Body = ''Unauthorized''\<rparr>)
          ''GET'' False) =
     Inl (AuthError ''authentication failed'' (APIError 401 ''Unauthorized'')) \<and>
   snd (requestCtx (respond_with \<lparr>StatusCode = 500, RetryAfter = [], Body = ''oops''\<rparr>)
          ''POST'' True) = Inl (APIError 500 ''oops'') \<and>
   rate_limited (serve always_429 0) \<and> rate_limited (serve always_429 1) \<and>
   rate_limited (serve always_429 2) \<and>
   snd (requestCtx always_429 ''GET'' False) = Inl (APIError 429 ''rate limited'')"
  using
    terminal_response_classification
      [of False "''GET''" "respond_with \<lparr>StatusCode = 200, RetryAfter = [], Body = ''[]''\<rparr>" 0
          "\<lparr>StatusCode = 200, RetryAfter = [], Body = ''[]''\<rparr>"]
    terminal_response_classification
      [of False "''GET''" "respond_with \<lparr>StatusCode = 304, RetryAfter = [], Body = []\<rparr>" 0
          "\<lparr>StatusCode = 304, RetryAfter = [], Body = []\<rparr>"]
    terminal_response_classification
      [of False "''GET''"
          "respond_with \<lparr>StatusCode = 401, RetryAfter = [], Body = ''Unauthorized''\<rparr>" 0
          "\<lparr>StatusCode = 401, RetryAfter = [], Body = ''Unauthorized''\<rparr>"]
    terminal_response_classification
      [of True "''POST''" "respond_with \<lparr>StatusCode = 500, RetryAfter = [], Body = ''oops''\<rparr>" 0
          "\<lparr>StatusCode = 500, RetryAfter = [], Body = ''oops''\<rparr>"]
    terminal_response_classification
      [of False "''GET''" always_429 3
          "\<lparr>StatusCode = 429, RetryAfter = ''1'', Body = ''rate limited''\<rparr>"]
  by (simp add: respond_with_def always_429_def maxRetries_def rate_limited_def)

text \<open>
  C8. When the loop reaches attempt \<open>k\<close> and that attempt fails at the network level
  (\<open>Do\<close> fails, or the body cannot be read), the call returns the network failure at
  once: the failed attempt is the last event of the run, the run has made \<open>k + 1\<close>
  attempts in all and, when the first attempt is the one that fails, consists of that
  attempt alone.
\<close>

theorem network_error_not_retried:
  assumes "hasData \<and> method \<noteq> ''GET'' \<longrightarrow> marshalErr e = None"
    and "newRequestErr e = None"
    and "k \<le> maxRetries"
    and "\<forall>i<k. rate_limited (serve e i)"
    and "\<forall>i. 0 < i \<and> i \<le> k \<longrightarrow> \<not> ctxDone e i"
    and "serve e k = DoError m \<or> serve e k = ReadError m"
  shows "snd (requestCtx e method hasData) =
           (if serve e k = DoError m then Inl (NetworkError ''request failed'' m)
            else Inl (NetworkError ''failed to read response'' m)) \<and>
         fst (requestCtx e method hasData) = expected_events e 0 k \<and>
         last (fst (requestCtx e method hasData)) = Attempt k \<and>
         length (filter is_attempt (fst (requestCtx e method hasData))) = Suc k \<and>
         (k = 0 \<longrightarrow> fst (requestCtx e method hasData) = [Attempt 0])"
proof -
  have "terminal k (serve e k)"
    using assms(6) by (auto simp: terminal_def rate_limited_def)
  then have run: "requestCtx e method hasData = (expected_events e 0 k, finish (serve e k))"
    using assms(1-5) by (rule requestCtx_run [rotated -1])
  have "finish (serve e k) =
           (if serve e k = DoError m then Inl (NetworkError ''request failed'' m)
            else Inl (NetworkError ''failed to read response'' m))"
    using assms(6) by (auto simp: finish_def)
  then show ?thesis
    using run last_expected_events [of e 0 k] attempts_expected_events [of e 0 k] by auto
qed

theorem network_error_not_retried_witness:
  "rate_limited (serve fail_after_429 0) \<and>
   serve fail_after_429 1 = DoError ''connection refused'' \<and>
   requestCtx fail_after_429 ''GET'' False =
     ([Attempt 0, Wait 2000000000, Attempt 1],
      Inl (NetworkError ''request failed'' ''connection refused''))"
proof -
  have h: "hint fail_after_429 0 = 2000000000"
    by code_simp
  have "expected_events fail_after_429 0 1 = [Attempt 0, Wait 2000000000, Attempt 1]"
    using h by (simp add: numeral_eq_Suc)
  then show ?thesis
    using network_error_not_retried
            [of False "''GET''" fail_after_429 1 "''connection refused''"]
    by (simp add: fail_after_429_def maxRetries_def rate_limited_def prod_eq_iff)
qed

section \<open>Transport: exhausted retries\<close>

lemma iteration_Continue:
  assumes "iteration e a le = (evs, Continue le')"
  shows "\<exists>r. serve e a = Responded r \<and> StatusCode r = 429 \<and> a < maxRetries \<and>
             le' = Some (RetryAfterError (rate_limit_wait (RetryAfter r)))"
  using assms
  by (auto simp: iteration_def handle_response_def
           split: prod.splits option.splits outcome.splits if_splits)

lemma wait_before_Some:
  "wait_before e a le = (ws, Some err) \<Longrightarrow> err = ContextError (ctxErr e)"
  by (auto simp: wait_before_def split: if_splits option.splits error.splits)

lemma iteration_Return:
  assumes "iteration e a le = (evs, Return r)"
  shows "r \<noteq> Inl (MaxRetriesExceeded x)"
  using assms
  by (auto simp: iteration_def handle_response_def dest: wait_before_Some
           split: prod.splits option.splits outcome.splits if_splits)

lemma retry_loop_never_exceeded:
  "a \<le> maxRetries \<Longrightarrow> snd (retry_loop e a le) \<noteq> Inl (MaxRetriesExceeded x)"
proof (induction e a le rule: retry_loop.induct)
  case (1 e attempt lastErr)
  obtain evs st where it: "iteration e attempt lastErr = (evs, st)"
    by (cases "iteration e attempt lastErr")
  show ?case
  proof (cases st)
    case (Return r)
    then show ?thesis
      using it 1(2) iteration_Return [of e attempt lastErr evs r x]
      by (simp add: retry_loop.simps [of e attempt lastErr])
  next
    case (Continue le')
    then have "attempt < maxRetries" using it iteration_Continue by blast
    then have "snd (retry_loop e (Suc attempt) le') \<noteq> Inl (MaxRetriesExceeded x)"
      using 1(1) [OF 1(2) it [symmetric]] Continue by simp
    then show ?thesis
      using it Continue 1(2) by (simp add: retry_loop.simps [of e attempt lastErr] prepend_def)
  qed
qed

lemma requestCtx_never_exceeded:
  "snd (requestCtx e method hasData) \<noteq> Inl (MaxRetriesExceeded x)"
  using retry_loop_never_exceeded [of 0 e None x]
  by (auto simp: requestCtx_def split: option.splits)

text \<open>
  C1. Against a server that answers 429 to every attempt the call makes four attempts,
  waiting before each retry, and the fourth 429 is returned as the API failure with status
  429 and the body: in iteration 3 the test \<open>attempt < maxRetries\<close> sends the response to
  the status classification. No call ever returns "max retries exceeded".
\<close>

theorem retries_exhausted_returns_api_error:
  "requestCtx always_429 ''GET'' False =
     ([Attempt 0, Wait 1000000000, Attempt 1, Wait 1000000000, Attempt 2, Wait 1000000000,
       Attempt 3],
      Inl (APIError 429 ''rate limited'')) \<and>
   (\<forall>e method hasData lastErr.
      snd (requestCtx e method hasData) \<noteq> Inl (MaxRetriesExceeded lastErr))"
proof
  show "requestCtx always_429 ''GET'' False =
     ([Attempt 0, Wait 1000000000, Attempt 1, Wait 1000000000, Attempt 2, Wait 1000000000,
       Attempt 3],
      Inl (APIError 429 ''rate limited''))"
    by code_simp
  show "\<forall>e method hasData lastErr.
      snd (requestCtx e method hasData) \<noteq> Inl (MaxRetriesExceeded lastErr)"
    using requestCtx_never_exceeded by blast
qed

section \<open>Transport: retries that end in success\<close>





text \<open>
  After \<open>k\<close> answers 429 and then a 2xx answer the call returns the 2xx body, having made
  \<open>k + 1\<close> attempts with the rate-limit wait of each 429 before the retry that follows it.
\<close>

lemma retry_then_success:
  assumes "hasData \<and> method \<noteq> ''GET'' \<longrightarrow> marshalErr e = None"
    and "newRequestErr e = None"
    and "k \<le> maxRetries"
    and "\<forall>i<k. rate_limited (serve e i)"
    and "\<forall>i. 0 < i \<and> i \<le> k \<longrightarrow> \<not> ctxDone e i"
    and "serve e k = Responded r"
    and "200 \<le> StatusCode r" "StatusCode r < 300"
  shows "requestCtx e method hasData = (expected_events e 0 k, Inr (Body r))"
proof -
  have "terminal k (serve e k)"
    using assms(6,7,8) by (simp add: terminal_def rate_limited_def)
  then have "requestCtx e method hasData = (expected_events e 0 k, finish (serve e k))"
    using assms(1-5) by (rule requestCtx_run [rotated -1])
  then show ?thesis using assms(6,8) by (simp add: finish_def classify_def)
qed

lemma retry_then_success_example:
  "requestCtx twice_429 ''GET'' False =
     ([Attempt 0, Wait (3 * Second), Attempt 1, Wait (5 * Second), Attempt 2], Inr ''[]'')"
proof -
  have h: "hint twice_429 0 = 3 * Second" "hint twice_429 1 = 5 * Second"
    by code_simp+
  have "expected_events twice_429 0 2 =
          [Attempt 0, Wait (3 * Second), Attempt 1, Wait (5 * Second), Attempt 2]"
    using h by (simp add: numeral_2_eq_2)
  then show ?thesis
    using retry_then_success
            [of False "''GET''" twice_429 2 "\<lparr>StatusCode = 200, RetryAfter = [], Body = ''[]''\<rparr>"]
    by (simp add: twice_429_def maxRetries_def rate_limited_def less_Suc_eq numeral_2_eq_2)
qed

text \<open>
  C2. The header \<open>Retry-After: 9223372037\<close> parses as an integer, but that many seconds
  do not fit the 64-bit nanosecond count: the call succeeds after two attempts and the
  wait armed before the retry is the wrapped, negative duration \<open>-9223372036709551616\<close>
  nanoseconds, not 9223372037 seconds.
\<close>

theorem retry_after_overflow:
  "Atoi ''9223372037'' = Some 9223372037 \<and>
   requestCtx huge_hint ''GET'' False =
     ([Attempt 0, Wait (- 9223372036709551616), Attempt 1], Inr ''[]'') \<and>
   Wait (9223372037 * Second) \<notin> set (fst (requestCtx huge_hint ''GET'' False))"
  by code_simp

section \<open>Transport: every wait is a rate-limit wait\<close>










end
